theory Spec2Isabelle
  imports Main
begin

section \<open>git-lfs: \<^verbatim>\<open>commands/command_migrate_export.go\<close>\<close>

text \<open>
  A shallow embedding of \<^verbatim>\<open>migrateExportCommand\<close>, of the two callbacks it hands to the
  history rewriter (\<^verbatim>\<open>BlobFn\<close>, \<^verbatim>\<open>TreeCallbackFn\<close>) and of \<^verbatim>\<open>trackedFromExportFilter\<close>.
  Go values are HOL values, a Go \<^verbatim>\<open>(T, error)\<close> result is \<open>error + T\<close>, byte streams and
  strings are \<open>string\<close>, and the \<^verbatim>\<open>*tools.OrderedSet\<close> pointers the closures share are
  addresses into an explicit heap.
\<close>

subsection \<open>Values\<close>

datatype error = Errorf string

type_synonym oid = string

text \<open>
  \<^verbatim>\<open>odb.Blob{Contents, Size}\<close>. \<^verbatim>\<open>Size\<close> is an \<^verbatim>\<open>int64\<close> that the source fills with
  \<^verbatim>\<open>int64(buf.Len())\<close>; \<^verbatim>\<open>buf.Len()\<close> is a non-negative Go \<^verbatim>\<open>int\<close>, so the conversion is
  exact and \<open>int\<close> holds it.
\<close>

record Blob =
  Contents :: string
  Size :: int

record TreeEntry =
  Name :: string
  Oid :: oid
  Filemode :: nat

record Tree =
  Entries :: "TreeEntry list"

text \<open>\<^verbatim>\<open>filepathfilter.Filter\<close>, read through \<^verbatim>\<open>Include()\<close> and \<^verbatim>\<open>Exclude()\<close>.\<close>

record Filter =
  Include :: "string list"
  Exclude :: "string list"

subsection \<open>\<^verbatim>\<open>tools.OrderedSet\<close>\<close>

text \<open>
  Modelled from the spec: \<^verbatim>\<open>tools.OrderedSet\<close> is not under src/. The spec's
  OrderedAttributeSet is "a sequence of unique AttributeLine values; insertion order is
  semantically significant and duplicates are silently suppressed", with add, clone
  ("deep, independent copy") and union ("every element of the receiver in its original
  order, followed by every element of the other operand not already present, in the other
  operand's order").
\<close>

definition add :: "string list \<Rightarrow> string \<Rightarrow> string list" where
  "add s x = (if x \<in> set s then s else s @ [x])"

definition union :: "string list \<Rightarrow> string list \<Rightarrow> string list" where
  "union s t = foldl add s t"

text \<open>
  The program holds ordered sets by pointer (\<^verbatim>\<open>*tools.OrderedSet\<close>), and the closure
  \<^verbatim>\<open>TreeCallbackFn\<close> shares the pointer \<^verbatim>\<open>tracked\<close> with every invocation. The heap is the
  list of all sets allocated so far and a pointer is an index into it. Every pointer the
  program dereferences was handed out by \<open>NewOrderedSet\<close> or \<open>Clone\<close>.

  The spec does not say whether \<^verbatim>\<open>Union\<close> builds a fresh set or extends its receiver, so
  \<open>Union_set\<close> takes that choice as its first argument.
\<close>

type_synonym ptr = nat
type_synonym heap = "string list list"

definition NewOrderedSet :: "heap \<Rightarrow> ptr \<times> heap" where
  "NewOrderedSet h = (length h, h @ [[]])"

definition Add :: "ptr \<Rightarrow> string \<Rightarrow> heap \<Rightarrow> heap" where
  "Add p x h = h[p := add (h ! p) x]"

definition Clone :: "ptr \<Rightarrow> heap \<Rightarrow> ptr \<times> heap" where
  "Clone p h = (length h, h @ [h ! p])"

definition Union_set :: "bool \<Rightarrow> ptr \<Rightarrow> ptr \<Rightarrow> heap \<Rightarrow> ptr \<times> heap" where
  "Union_set in_place p q h =
     (if in_place then (p, h[p := union (h ! p) (h ! q)])
      else (length h, h @ [union (h ! p) (h ! q)]))"

subsection \<open>\<^verbatim>\<open>filepath.Base\<close>\<close>

text \<open>
  Go's \<^verbatim>\<open>path/filepath.Base\<close> where the separator is \<^verbatim>\<open>/\<close> and there are no volume names:
  the empty path gives \<^verbatim>\<open>.\<close>, trailing separators are stripped, the text after the last
  separator is returned, and a path of separators only gives \<^verbatim>\<open>/\<close>.
\<close>

definition IsPathSeparator :: "char \<Rightarrow> bool" where
  "IsPathSeparator c = (c = CHR ''/'')"

definition Base :: "string \<Rightarrow> string" where
  "Base path =
     (if path = [] then ''.''
      else
        let stripped = rev (dropWhile IsPathSeparator (rev path));
            element = rev (takeWhile (\<lambda>c. \<not> IsPathSeparator c) (rev stripped))
        in if element = [] then ''/'' else element)"

subsection \<open>The collaborators that are not in this file\<close>

text \<open>
  A visit is one call the history rewriter makes: a blob or a tree, with its path. The
  objects of a rewrite are what the callbacks returned.
\<close>

datatype visit = VisitBlob string Blob | VisitTree string Tree

datatype object = BlobObject Blob | TreeObject Tree

type_synonym refs = "(string \<times> oid) list"

text \<open>
  The functions of other packages that the source calls, and what the command reads from
  its surroundings, are parameters of the model:
  \<^item> \<open>escapeAttrPattern\<close>: the pattern escaping;
  \<^item> \<open>smudge\<close>: the content filter, from the path and the blob's contents to the bytes
    it wrote into \<^verbatim>\<open>buf\<close> and the error it returned (\<open>None\<close> is Go's \<^verbatim>\<open>nil\<close>);
  \<^item> \<open>db_Blob\<close>: reading the contents of a blob of the object database by id (a failure
    of the reader while the contents are scanned is this error);
  \<^item> \<open>db_WriteBlob\<close>: \<^verbatim>\<open>db.WriteBlob\<close>, which returns the new id or an error, and the
    database after the call;
  \<^item> \<open>union_in_place\<close>: whether \<^verbatim>\<open>Union\<close> extends its receiver;
  \<^item> \<open>getObjectDatabase\<close>: the error of opening the object database, if any;
  \<^item> \<open>cmd_filter\<close>: \<^verbatim>\<open>rewriter.Filter()\<close>, built from the command line;
  \<^item> \<open>visits\<close>: the objects the rewriter comes across, in its order;
  \<^item> \<open>rewritten_refs\<close>: the refs the rewriter installs after a complete rewrite;
  \<^item> \<open>IsBare\<close>: both results of \<^verbatim>\<open>git.IsBare()\<close>;
  \<^item> \<open>Checkout\<close>: the error of \<^verbatim>\<open>git.Checkout("", nil, true)\<close>, if any.
\<close>

record 'db env =
  escapeAttrPattern :: "string \<Rightarrow> string"
  smudge :: "string \<Rightarrow> string \<Rightarrow> string \<times> error option"
  db_Blob :: "'db \<Rightarrow> oid \<Rightarrow> error + string"
  db_WriteBlob :: "'db \<Rightarrow> Blob \<Rightarrow> (error + oid) \<times> 'db"
  union_in_place :: bool
  getObjectDatabase :: "error option"
  cmd_filter :: Filter
  visits :: "visit list"
  rewritten_refs :: "object list \<Rightarrow> refs \<Rightarrow> refs"
  IsBare :: "bool \<times> error option"
  Checkout :: "error option"

text \<open>What a callback can change: the heap of ordered sets and the object database.\<close>

record 'db world =
  sets :: heap
  odb :: 'db

subsection \<open>\<^verbatim>\<open>trackedFromExportFilter\<close>\<close>

definition export_line :: "'db env \<Rightarrow> string \<Rightarrow> string" where
  "export_line env include = escapeAttrPattern env include @ '' text -filter -merge -diff''"

definition track_line :: "'db env \<Rightarrow> string \<Rightarrow> string" where
  "track_line env exclude = escapeAttrPattern env exclude @ '' filter=lfs diff=lfs merge=lfs -text''"

definition trackedFromExportFilter :: "'db env \<Rightarrow> Filter \<Rightarrow> heap \<Rightarrow> ptr \<times> heap" where
  "trackedFromExportFilter env flt h =
     (let (tracked, h1) = NewOrderedSet h;
          h2 = fold (\<lambda>include. Add tracked (export_line env include)) (Include flt) h1;
          h3 = fold (\<lambda>exclude. Add tracked (track_line env exclude)) (Exclude flt) h2
      in (tracked, h3))"

subsection \<open>\<^verbatim>\<open>BlobFn\<close>\<close>

definition BlobFn :: "'db env \<Rightarrow> string \<Rightarrow> Blob \<Rightarrow> error + Blob" where
  "BlobFn env path b =
     (if Base path = ''.gitattributes'' then Inr b
      else
        case smudge env path (Contents b) of
          (buf, Some err) \<Rightarrow> Inl err
        | (buf, None) \<Rightarrow> Inr \<lparr>Contents = buf, Size = int (length buf)\<rparr>)"

subsection \<open>The helpers of \<^verbatim>\<open>TreeCallbackFn\<close>\<close>

text \<open>
  Modelled from the spec: \<^verbatim>\<open>trackedFromAttrs\<close> is not under src/. "Look up an entry named
  as the attribute file in tree; if present, read its blob content and parse it
  line-by-line into an OrderedAttributeSet (theirs); if absent, theirs is empty." A line
  ends at a line feed; text after the last line feed is a line when it is not empty.
\<close>

fun scan_lines :: "string \<Rightarrow> string \<Rightarrow> string list" where
  "scan_lines cur [] = (if cur = [] then [] else [cur])"
| "scan_lines cur (c # cs) =
     (if c = CHR 0x0A then cur # scan_lines [] cs else scan_lines (cur @ [c]) cs)"

definition trackedFromAttrs :: "'db env \<Rightarrow> 'db world \<Rightarrow> Tree \<Rightarrow> (error + ptr) \<times> 'db world" where
  "trackedFromAttrs env w t =
     (case find (\<lambda>e. Name e = ''.gitattributes'') (Entries t) of
        None \<Rightarrow> (let (s, h) = NewOrderedSet (sets w) in (Inr s, w\<lparr>sets := h\<rparr>))
      | Some e \<Rightarrow>
          (case db_Blob env (odb w) (Oid e) of
             Inl err \<Rightarrow> (Inl err, w)
           | Inr contents \<Rightarrow>
               (let (s, h) = NewOrderedSet (sets w)
                in (Inr s, w\<lparr>sets := fold (Add s) (scan_lines [] contents) h\<rparr>))))"

text \<open>
  Modelled from the spec: \<^verbatim>\<open>trackedToBlob\<close> is not under src/. "Serialize merged as
  newline-joined text, store it as a new blob"; the spec's scenario A has a line terminator
  after the only line, so every line is followed by a line feed.
\<close>

definition serialize :: "string list \<Rightarrow> string" where
  "serialize ls = concat (map (\<lambda>l. l @ [CHR 0x0A]) ls)"

definition trackedToBlob :: "'db env \<Rightarrow> 'db world \<Rightarrow> ptr \<Rightarrow> (error + oid) \<times> 'db world" where
  "trackedToBlob env w patterns =
     (let attrs = serialize (sets w ! patterns)
      in case db_WriteBlob env (odb w) \<lparr>Contents = attrs, Size = int (length attrs)\<rparr> of
           (r, db') \<Rightarrow> (r, w\<lparr>odb := db'\<rparr>))"

text \<open>
  Modelled from the spec: \<^verbatim>\<open>(*odb.Tree).Merge\<close> is not under src/. "Return a new tree
  identical to the input except that its attribute-file entry is replaced (or added, with
  regular-file mode) to reference the new blob": the entry of the same name is replaced
  where it stands, and the entry is appended when the tree has none of that name.
\<close>

definition Merge :: "Tree \<Rightarrow> TreeEntry \<Rightarrow> Tree" where
  "Merge t other =
     (if list_ex (\<lambda>e. Name e = Name other) (Entries t)
      then \<lparr>Entries = map (\<lambda>e. if Name e = Name other then other else e) (Entries t)\<rparr>
      else \<lparr>Entries = Entries t @ [other]\<rparr>)"

subsection \<open>\<^verbatim>\<open>TreeCallbackFn\<close>\<close>

text \<open>
  \<open>tracked\<close> is the pointer the closure captured. The mode \<^verbatim>\<open>0100644\<close> is octal.
  An error return carries the world as the failed call left it.
\<close>

definition TreeCallbackFn ::
  "'db env \<Rightarrow> ptr \<Rightarrow> string \<Rightarrow> Tree \<Rightarrow> 'db world \<Rightarrow> (error + Tree) \<times> 'db world" where
  "TreeCallbackFn env tracked path t w =
     (if path \<noteq> ''/'' then (Inr t, w)
      else
        let ours = tracked in
        case trackedFromAttrs env w t of
          (Inl err, w1) \<Rightarrow> (Inl err, w1)
        | (Inr theirs, w1) \<Rightarrow>
            (let (clone, h2) = Clone theirs (sets w1);
                 (merged, h3) = Union_set (union_in_place env) clone ours h2
             in case trackedToBlob env (w1\<lparr>sets := h3\<rparr>) merged of
                  (Inl err, w2) \<Rightarrow> (Inl err, w2)
                | (Inr blob, w2) \<Rightarrow>
                    (Inr (Merge t \<lparr>Name = ''.gitattributes'', Oid = blob,
                                   Filemode = 8 ^ 5 + 6 * 8 ^ 2 + 4 * 8 + 4\<rparr>), w2)))"

subsection \<open>The process: deferred calls and \<^verbatim>\<open>ExitWithError\<close>\<close>

datatype event =
  LoggerClose
  | DbOpen
  | DbClose
  | CallBlobFn string
  | CallTreeCallbackFn string
  | UpdateRefs
  | GitCheckout
  | Fatal error

datatype status = Running | Returned | Exited error

text \<open>
  The state of the running command: the world, the repository's refs, what has happened
  so far, the calls \<^verbatim>\<open>defer\<close> has stacked up (the last one first), and whether the
  command is still running. Go runs the deferred calls when the function returns.
\<close>

record 'db process =
  world :: "'db world"
  refs :: refs
  trace :: "event list"
  deferred :: "event list"
  status :: status

definition start :: "'db world \<Rightarrow> refs \<Rightarrow> 'db process" where
  "start w r = \<lparr>world = w, refs = r, trace = [], deferred = [], status = Running\<rparr>"

definition emit :: "event \<Rightarrow> 'db process \<Rightarrow> 'db process" where
  "emit e p = p\<lparr>trace := trace p @ [e]\<rparr>"

definition go_defer :: "event \<Rightarrow> 'db process \<Rightarrow> 'db process" where
  "go_defer e p = p\<lparr>deferred := e # deferred p\<rparr>"

definition go_return :: "'db process \<Rightarrow> 'db process" where
  "go_return p = p\<lparr>trace := trace p @ deferred p, deferred := [], status := Returned\<rparr>"

text \<open>
  Modelled from the spec: \<^verbatim>\<open>ExitWithError\<close> is not under src/. It "terminates immediately
  with a fatal message and non-zero exit status": the message is printed and the process
  ends there, so the function that called it never returns and its deferred calls are not
  run.
\<close>

definition ExitWithError :: "error \<Rightarrow> 'db process \<Rightarrow> 'db process" where
  "ExitWithError err p = p\<lparr>trace := trace p @ [Fatal err], status := Exited err\<rparr>"

subsection \<open>The history rewriter\<close>

text \<open>\<^verbatim>\<open>githistory.RewriteOptions\<close>, with the two callbacks as functions.\<close>

record 'db RewriteOptions =
  opt_BlobFn :: "string \<Rightarrow> Blob \<Rightarrow> error + Blob"
  opt_TreeCallbackFn :: "string \<Rightarrow> Tree \<Rightarrow> 'db world \<Rightarrow> (error + Tree) \<times> 'db world"
  opt_UpdateRefs :: bool

text \<open>
  Modelled from the spec: the rewriter and \<^verbatim>\<open>migrate\<close> are not under src/. The engine
  invokes the callbacks "per unique object encountered", treats the first error as "fatal
  and abort-without-partial-effect", and "guarantees original refs are untouched unless the
  whole operation succeeds"; the orchestrator "terminates the process with a fatal message"
  on a failure. The order of the visits is the engine's own and is a parameter.
\<close>

fun visit_event :: "visit \<Rightarrow> event" where
  "visit_event (VisitBlob path b) = CallBlobFn path"
| "visit_event (VisitTree path t) = CallTreeCallbackFn path"

fun call_visit :: "'db RewriteOptions \<Rightarrow> visit \<Rightarrow> 'db process \<Rightarrow> (error + object) \<times> 'db process" where
  "call_visit opts (VisitBlob path b) p =
     (case opt_BlobFn opts path b of
        Inl err \<Rightarrow> (Inl err, emit (CallBlobFn path) p)
      | Inr b' \<Rightarrow> (Inr (BlobObject b'), emit (CallBlobFn path) p))"
| "call_visit opts (VisitTree path t) p =
     (case opt_TreeCallbackFn opts path t (world p) of
        (Inl err, w) \<Rightarrow> (Inl err, (emit (CallTreeCallbackFn path) p)\<lparr>world := w\<rparr>)
      | (Inr t', w) \<Rightarrow> (Inr (TreeObject t'), (emit (CallTreeCallbackFn path) p)\<lparr>world := w\<rparr>))"

fun rewrite_visits ::
  "'db RewriteOptions \<Rightarrow> visit list \<Rightarrow> 'db process \<Rightarrow> (error + object list) \<times> 'db process" where
  "rewrite_visits opts [] p = (Inr [], p)"
| "rewrite_visits opts (v # vs) p =
     (case call_visit opts v p of
        (Inl err, p1) \<Rightarrow> (Inl err, p1)
      | (Inr obj, p1) \<Rightarrow>
          (case rewrite_visits opts vs p1 of
             (Inl err, p2) \<Rightarrow> (Inl err, p2)
           | (Inr objs, p2) \<Rightarrow> (Inr (obj # objs), p2)))"

definition Rewrite :: "'db env \<Rightarrow> 'db RewriteOptions \<Rightarrow> 'db process \<Rightarrow> (error + object list) \<times> 'db process" where
  "Rewrite env opts p =
     (case rewrite_visits opts (visits env) p of
        (Inl err, p1) \<Rightarrow> (Inl err, p1)
      | (Inr objs, p1) \<Rightarrow>
          (if opt_UpdateRefs opts
           then (Inr objs, (emit UpdateRefs p1)\<lparr>refs := rewritten_refs env objs (refs p1)\<rparr>)
           else (Inr objs, p1)))"

definition migrate :: "'db env \<Rightarrow> 'db RewriteOptions \<Rightarrow> 'db process \<Rightarrow> 'db process" where
  "migrate env opts p =
     (case Rewrite env opts p of
        (Inl err, p1) \<Rightarrow> ExitWithError err p1
      | (Inr objs, p1) \<Rightarrow> p1)"

subsection \<open>\<^verbatim>\<open>migrateExportCommand\<close>\<close>

definition export_options :: "'db env \<Rightarrow> ptr \<Rightarrow> 'db RewriteOptions" where
  "export_options env tracked =
     \<lparr>opt_BlobFn = BlobFn env, opt_TreeCallbackFn = TreeCallbackFn env tracked,
      opt_UpdateRefs = True\<rparr>"

text \<open>
  The part of the command after the check of the include list: the canonical set is built,
  the rewriter runs, and the work tree is checked out unless the repository is bare. The
  second result of \<^verbatim>\<open>git.IsBare()\<close> is bound to \<^verbatim>\<open>_\<close>.
\<close>

definition export_tracked :: "'db env \<Rightarrow> 'db process \<Rightarrow> ptr \<times> 'db process" where
  "export_tracked env p =
     (let (tracked, h) = trackedFromExportFilter env (cmd_filter env) (sets (world p))
      in (tracked, p\<lparr>world := (world p)\<lparr>sets := h\<rparr>\<rparr>))"

definition checkout_unless_bare :: "'db env \<Rightarrow> 'db process \<Rightarrow> 'db process" where
  "checkout_unless_bare env p =
     (let (bare, _) = IsBare env
      in if \<not> bare then
           (let p1 = emit GitCheckout p
            in case Checkout env of
                 Some err \<Rightarrow> ExitWithError err p1
               | None \<Rightarrow> go_return p1)
         else go_return p)"

definition migrateExportCommand :: "'db env \<Rightarrow> 'db world \<Rightarrow> refs \<Rightarrow> 'db process" where
  "migrateExportCommand env w r =
     (let p0 = go_defer LoggerClose (start w r)
      in case getObjectDatabase env of
           Some err \<Rightarrow> ExitWithError err p0
         | None \<Rightarrow>
             (let p1 = go_defer DbClose (emit DbOpen p0);
                  flt = cmd_filter env
              in if length (Include flt) \<le> 0
                 then ExitWithError
                        (Errorf ''fatal: one or more files must be specified with --include'') p1
                 else
                   (let (tracked, p2) = export_tracked env p1;
                        p3 = migrate env (export_options env tracked) p2
                    in if status p3 = Running then checkout_unless_bare env p3 else p3)))"


text \<open>
  The state in which the rewriter starts when the database opened and the include list
  is not empty, with the pointer to the canonical set.
\<close>

definition rewrite_start :: "'db env \<Rightarrow> 'db world \<Rightarrow> refs \<Rightarrow> ptr \<times> 'db process" where
  "rewrite_start env w r =
     export_tracked env (go_defer DbClose (emit DbOpen (go_defer LoggerClose (start w r))))"

subsection \<open>An environment for the examples\<close>

text \<open>
  An object database in memory that names a blob by its contents, a content filter that
  resolves one pointer and fails on everything else, and an escaping that puts a backslash
  before a space, \<^verbatim>\<open>#\<close>, \<^verbatim>\<open>!\<close> and a backslash.
\<close>

definition backslash_escape :: "string \<Rightarrow> string" where
  "backslash_escape s =
     concat (map (\<lambda>c. if c \<in> set [CHR '' '', CHR ''#'', CHR ''!'', CHR 0x5C]
                        then [CHR 0x5C, c] else [c]) s)"

definition demo_smudge :: "string \<Rightarrow> string \<Rightarrow> string \<times> error option" where
  "demo_smudge path contents =
     (if contents = ''oid 1'' then (''real bytes'', None)
      else ([], Some (Errorf ''pointer not resolved'')))"

definition demo_Blob :: "(oid \<times> string) list \<Rightarrow> oid \<Rightarrow> error + string" where
  "demo_Blob db i =
     (case map_of db i of None \<Rightarrow> Inl (Errorf ''object not found'') | Some c \<Rightarrow> Inr c)"

definition demo_WriteBlob ::
  "(oid \<times> string) list \<Rightarrow> Blob \<Rightarrow> (error + oid) \<times> (oid \<times> string) list" where
  "demo_WriteBlob db b = (Inr (Contents b), db @ [(Contents b, Contents b)])"

definition demo_env :: "Filter \<Rightarrow> visit list \<Rightarrow> bool \<times> error option \<Rightarrow> (oid \<times> string) list env" where
  "demo_env flt vs bare =
     \<lparr>escapeAttrPattern = backslash_escape, smudge = demo_smudge, db_Blob = demo_Blob,
      db_WriteBlob = demo_WriteBlob, union_in_place = True, getObjectDatabase = None,
      cmd_filter = flt, visits = vs,
      rewritten_refs = (\<lambda>objs r. map (\<lambda>(n, i). (n, ''rewritten'')) r),
      IsBare = bare, Checkout = None\<rparr>"

section \<open>Properties\<close>

subsection \<open>Ordered sets\<close>

lemma foldl_add_eq:
  "foldl add s t = s @ rev (remdups (rev (filter (\<lambda>x. x \<notin> set s) t)))"
proof (induction t arbitrary: s)
  case Nil
  show ?case by simp
next
  case (Cons x t)
  show ?case
  proof (cases "x \<in> set s")
    case True
    then show ?thesis using Cons by (simp add: add_def)
  next
    case False
    have r: "remdups (ys @ [x]) = remdups (filter (\<lambda>y. y \<noteq> x) ys) @ [x]" for ys
      by (induction ys) auto
    from Cons.IH[of "s @ [x]"] False show ?thesis
      by (simp add: add_def r rev_filter conj_commute)
  qed
qed

lemma foldl_add_Nil: "foldl add [] t = rev (remdups (rev t))"
  by (simp add: foldl_add_eq)

lemma distinct_first_occurrences: "distinct (rev (remdups (rev t)))"
  by simp

lemma first_occurrences_distinct: "distinct t \<Longrightarrow> rev (remdups (rev t)) = t"
  by (simp add: distinct_remdups_id)

lemma union_distinct: "distinct t \<Longrightarrow> union s t = s @ filter (\<lambda>x. x \<notin> set s) t"
  by (simp add: union_def foldl_add_eq rev_filter [symmetric] first_occurrences_distinct)

lemma distinct_union: "distinct s \<Longrightarrow> distinct (union s t)"
  by (auto simp: union_def foldl_add_eq)

lemma set_union: "set (union s t) = set s \<union> set t"
  by (auto simp: union_def foldl_add_eq)

subsection \<open>The heap\<close>

lemma fold_Add:
  "p < length h \<Longrightarrow> fold (\<lambda>x. Add p (f x)) xs h = h[p := foldl add (h ! p) (map f xs)]"
proof (induction xs arbitrary: h)
  case Nil
  show ?case by simp
next
  case (Cons x xs)
  have "p < length (Add p (f x) h)" using Cons.prems by (simp add: Add_def)
  from Cons.IH[OF this] Cons.prems show ?case by (simp add: Add_def)
qed

lemma export_line_neq_track_line: "export_line env a \<noteq> track_line env b"
proof
  assume "export_line env a = track_line env b"
  then have "last (export_line env a) = last (track_line env b)" by simp
  then show False by (simp add: export_line_def track_line_def)
qed

lemma distinct_lines:
  assumes "distinct (map (escapeAttrPattern env) incs)" and "distinct (map (escapeAttrPattern env) excs)"
  shows "distinct (map (export_line env) incs @ map (track_line env) excs)"
proof -
  have suffix: "distinct (map (\<lambda>y. y @ s) ys) = distinct ys" for s :: string and ys
    by (simp add: distinct_map inj_on_def)
  have "map (export_line env) incs =
          map (\<lambda>y. y @ '' text -filter -merge -diff'') (map (escapeAttrPattern env) incs)"
    by (simp add: export_line_def)
  then have incs: "distinct (map (export_line env) incs)"
    using assms(1) by (simp only: suffix)
  have "map (track_line env) excs =
          map (\<lambda>y. y @ '' filter=lfs diff=lfs merge=lfs -text'') (map (escapeAttrPattern env) excs)"
    by (simp add: track_line_def)
  then have excs: "distinct (map (track_line env) excs)"
    using assms(2) by (simp only: suffix)
  show ?thesis using incs excs export_line_neq_track_line by auto
qed

lemma trackedFromExportFilter_eq:
  "trackedFromExportFilter env flt h =
     (length h, h @ [rev (remdups (rev (map (export_line env) (Include flt) @ map (track_line env) (Exclude flt))))])"
proof -
  let ?incs = "map (export_line env) (Include flt)" and ?excs = "map (track_line env) (Exclude flt)"
  have "foldl add (foldl add [] ?incs) ?excs = foldl add [] (?incs @ ?excs)"
    by simp
  also have "\<dots> = rev (remdups (rev (?incs @ ?excs)))"
    by (rule foldl_add_Nil)
  finally show ?thesis
    by (simp add: trackedFromExportFilter_def NewOrderedSet_def fold_Add)
qed

subsection \<open>\<^verbatim>\<open>trackedFromExportFilter\<close>\<close>

text \<open>
  C2. The set \<^verbatim>\<open>trackedFromExportFilter\<close> returns holds one line per include pattern (the
  escaped pattern, then \<^verbatim>\<open>text -filter -merge -diff\<close>) followed by one line per exclude
  pattern (the escaped pattern, then \<^verbatim>\<open>filter=lfs diff=lfs merge=lfs -text\<close>), each line
  kept where it first occurs. When the escaped include patterns are pairwise different and
  so are the escaped exclude patterns, nothing collapses: the set is exactly the include
  lines followed by the exclude lines, \<open>k1 + k2\<close> lines with the includes first.
\<close>

theorem trackedFromExportFilter_lines:
  "(case trackedFromExportFilter env flt h of
      (tracked, h') \<Rightarrow>
        h' ! tracked =
          rev (remdups (rev (map (export_line env) (Include flt) @ map (track_line env) (Exclude flt)))) \<and>
        (distinct (map (escapeAttrPattern env) (Include flt)) \<and>
         distinct (map (escapeAttrPattern env) (Exclude flt)) \<longrightarrow>
           h' ! tracked = map (export_line env) (Include flt) @ map (track_line env) (Exclude flt) \<and>
           length (h' ! tracked) = length (Include flt) + length (Exclude flt) \<and>
           take (length (Include flt)) (h' ! tracked) = map (export_line env) (Include flt)))"
  using distinct_lines [of env "Include flt" "Exclude flt"]
  by (simp add: trackedFromExportFilter_eq first_occurrences_distinct del: rev_append)

theorem trackedFromExportFilter_lines_witness:
  "(case trackedFromExportFilter (demo_env \<lparr>Include = [''*.bin'', ''a b.txt''], Exclude = [''*.psd'']\<rparr> [] (False, None))
           \<lparr>Include = [''*.bin'', ''a b.txt''], Exclude = [''*.psd'']\<rparr> [] of
      (tracked, h') \<Rightarrow>
        distinct (map backslash_escape [''*.bin'', ''a b.txt'']) \<and>
        distinct (map backslash_escape [''*.psd'']) \<and>
        h' ! tracked =
          [''*.bin text -filter -merge -diff'',
           [CHR ''a'', CHR 0x5C] @ '' b.txt text -filter -merge -diff'',
           ''*.psd filter=lfs diff=lfs merge=lfs -text''] \<and>
        length (h' ! tracked) = 2 + 1)"
  using trackedFromExportFilter_lines
    [of "demo_env \<lparr>Include = [''*.bin'', ''a b.txt''], Exclude = [''*.psd'']\<rparr> [] (False, None)"
        "\<lparr>Include = [''*.bin'', ''a b.txt''], Exclude = [''*.psd'']\<rparr>" "[]"]
  by (simp add: demo_env_def backslash_escape_def export_line_def track_line_def split: prod.splits)

subsection \<open>\<^verbatim>\<open>BlobFn\<close>\<close>

text \<open>
  C5. On a path whose base name is \<^verbatim>\<open>.gitattributes\<close>, \<^verbatim>\<open>BlobFn\<close> returns the blob it was
  given, whatever its contents.
\<close>

theorem BlobFn_gitattributes_identity:
  "Base path = ''.gitattributes'' \<Longrightarrow> BlobFn env path b = Inr b"
  by (simp add: BlobFn_def)

theorem BlobFn_gitattributes_identity_witness:
  "Base ''docs/.gitattributes'' = ''.gitattributes'' \<and>
   BlobFn (demo_env \<lparr>Include = [''*.bin''], Exclude = []\<rparr> [] (False, None)) ''docs/.gitattributes''
       \<lparr>Contents = ''*.bin filter=lfs'', Size = 15\<rparr> =
     Inr \<lparr>Contents = ''*.bin filter=lfs'', Size = 15\<rparr>"
proof -
  have base: "Base ''docs/.gitattributes'' = ''.gitattributes''"
    by (simp add: Base_def IsPathSeparator_def)
  show ?thesis
    using base BlobFn_gitattributes_identity [OF base] by simp
qed

text \<open>
  C4. On any other path, when the content filter resolves the blob's pointer (it writes
  \<open>buf\<close> and returns no error), \<^verbatim>\<open>BlobFn\<close> returns a new blob whose contents are the
  resolved bytes and whose \<^verbatim>\<open>Size\<close> is their number.
\<close>

theorem BlobFn_smudged:
  "Base path \<noteq> ''.gitattributes'' \<Longrightarrow> smudge env path (Contents b) = (buf, None) \<Longrightarrow>
   BlobFn env path b = Inr \<lparr>Contents = buf, Size = int (length buf)\<rparr>"
  by (simp add: BlobFn_def)

theorem BlobFn_smudged_witness:
  "Base ''img/a.bin'' \<noteq> ''.gitattributes'' \<and>
   smudge (demo_env \<lparr>Include = [''*.bin''], Exclude = []\<rparr> [] (False, None)) ''img/a.bin'' ''oid 1'' =
     (''real bytes'', None) \<and>
   BlobFn (demo_env \<lparr>Include = [''*.bin''], Exclude = []\<rparr> [] (False, None)) ''img/a.bin''
       \<lparr>Contents = ''oid 1'', Size = 5\<rparr> =
     Inr \<lparr>Contents = ''real bytes'', Size = 10\<rparr>"
proof -
  let ?env = "demo_env \<lparr>Include = [''*.bin''], Exclude = []\<rparr> [] (False, None)"
  have base: "Base ''img/a.bin'' \<noteq> ''.gitattributes''"
    by (simp add: Base_def IsPathSeparator_def)
  have resolved: "smudge ?env ''img/a.bin'' (Contents \<lparr>Contents = ''oid 1'', Size = 5\<rparr>) = (''real bytes'', None)"
    by (simp add: demo_env_def demo_smudge_def)
  show ?thesis
    using base resolved BlobFn_smudged [OF base resolved] by simp
qed

subsection \<open>\<^verbatim>\<open>TreeCallbackFn\<close> away from the root\<close>

text \<open>
  C6. For a tree whose path is not \<^verbatim>\<open>/\<close>, \<^verbatim>\<open>TreeCallbackFn\<close> returns the tree it was
  given and changes nothing.
\<close>

theorem TreeCallbackFn_non_root_identity:
  "path \<noteq> ''/'' \<Longrightarrow> TreeCallbackFn env tracked path t w = (Inr t, w)"
  by (simp add: TreeCallbackFn_def)

theorem TreeCallbackFn_non_root_identity_witness:
  "''/docs'' \<noteq> ''/'' \<and>
   TreeCallbackFn (demo_env \<lparr>Include = [''*.bin''], Exclude = []\<rparr> [] (False, None)) 0 ''/docs''
       \<lparr>Entries = [\<lparr>Name = ''.gitattributes'', Oid = ''1'', Filemode = 33188\<rparr>]\<rparr>
       \<lparr>sets = [[''*.bin text -filter -merge -diff'']], odb = []\<rparr> =
     (Inr \<lparr>Entries = [\<lparr>Name = ''.gitattributes'', Oid = ''1'', Filemode = 33188\<rparr>]\<rparr>,
      \<lparr>sets = [[''*.bin text -filter -merge -diff'']], odb = []\<rparr>)"
proof -
  have path: "''/docs'' \<noteq> ''/''" by simp
  show ?thesis
    using path TreeCallbackFn_non_root_identity [OF path] by simp
qed

subsection \<open>\<^verbatim>\<open>TreeCallbackFn\<close> at the root\<close>

lemma fold_Add_id:
  "p < length h \<Longrightarrow> fold (Add p) xs h = h[p := foldl add (h ! p) xs]"
  using fold_Add [of p h "\<lambda>x. x" xs] by simp

lemma trackedFromAttrs_absent:
  "find (\<lambda>e. Name e = ''.gitattributes'') (Entries t) = None \<Longrightarrow>
   trackedFromAttrs env w t = (Inr (length (sets w)), w\<lparr>sets := sets w @ [[]]\<rparr>)"
  by (simp add: trackedFromAttrs_def NewOrderedSet_def)

lemma trackedFromAttrs_read:
  "find (\<lambda>e. Name e = ''.gitattributes'') (Entries t) = Some e \<Longrightarrow>
   db_Blob env (odb w) (Oid e) = Inr contents \<Longrightarrow>
   trackedFromAttrs env w t =
     (Inr (length (sets w)), w\<lparr>sets := sets w @ [rev (remdups (rev (scan_lines [] contents)))]\<rparr>)"
  by (simp add: trackedFromAttrs_def NewOrderedSet_def fold_Add_id foldl_add_Nil)

lemma trackedFromAttrs_failed:
  "find (\<lambda>e. Name e = ''.gitattributes'') (Entries t) = Some e \<Longrightarrow>
   db_Blob env (odb w) (Oid e) = Inl err \<Longrightarrow>
   trackedFromAttrs env w t = (Inl err, w)"
  by (simp add: trackedFromAttrs_def)

lemma trackedFromAttrs_existing:
  assumes "case find (\<lambda>e. Name e = ''.gitattributes'') (Entries t) of
             None \<Rightarrow> contents = [] | Some e \<Rightarrow> db_Blob env (odb w) (Oid e) = Inr contents"
  shows "trackedFromAttrs env w t =
     (Inr (length (sets w)), w\<lparr>sets := sets w @ [rev (remdups (rev (scan_lines [] contents)))]\<rparr>)"
  using assms
  by (auto simp: trackedFromAttrs_absent trackedFromAttrs_read split: option.splits)

text \<open>The set handed to \<^verbatim>\<open>trackedToBlob\<close>, and the heap then.\<close>

lemma clone_union:
  assumes "tracked < length h"
  shows "(case Clone (length h) (h @ [theirs]) of
             (clone, h2) \<Rightarrow>
               (case Union_set in_place clone tracked h2 of
                  (merged, h3) \<Rightarrow>
                    h3 ! merged = union theirs (h ! tracked) \<and> take (length h) h3 = h \<and>
                    length h < length h3))"
  using assms by (simp add: Clone_def Union_set_def nth_append)

lemma TreeCallbackFn_root:
  assumes live: "tracked < length (sets w)"
    and existing: "case find (\<lambda>e. Name e = ''.gitattributes'') (Entries t) of
             None \<Rightarrow> contents = [] | Some e \<Rightarrow> db_Blob env (odb w) (Oid e) = Inr contents"
    and merged: "merged = union (rev (remdups (rev (scan_lines [] contents)))) (sets w ! tracked)"
  shows "\<exists>h. take (length (sets w)) h = sets w \<and> length (sets w) < length h \<and>
     TreeCallbackFn env tracked ''/'' t w =
       (case db_WriteBlob env (odb w)
               \<lparr>Contents = serialize merged, Size = int (length (serialize merged))\<rparr> of
          (Inl err, db') \<Rightarrow> (Inl err, w\<lparr>sets := h, odb := db'\<rparr>)
        | (Inr blob, db') \<Rightarrow>
            (Inr (Merge t \<lparr>Name = ''.gitattributes'', Oid = blob, Filemode = 33188\<rparr>),
             w\<lparr>sets := h, odb := db'\<rparr>))"
proof (cases "union_in_place env")
  case True
  let ?theirs = "rev (remdups (rev (scan_lines [] contents)))"
  let ?h = "sets w @ [?theirs, merged]"
  have "TreeCallbackFn env tracked ''/'' t w =
       (case db_WriteBlob env (odb w)
               \<lparr>Contents = serialize merged, Size = int (length (serialize merged))\<rparr> of
          (Inl err, db') \<Rightarrow> (Inl err, w\<lparr>sets := ?h, odb := db'\<rparr>)
        | (Inr blob, db') \<Rightarrow>
            (Inr (Merge t \<lparr>Name = ''.gitattributes'', Oid = blob, Filemode = 33188\<rparr>),
             w\<lparr>sets := ?h, odb := db'\<rparr>))"
    using live True
    by (simp add: TreeCallbackFn_def trackedFromAttrs_existing [OF existing] Clone_def
          Union_set_def trackedToBlob_def merged nth_append split: prod.splits sum.splits)
  then show ?thesis
    by (intro exI [of _ ?h]) simp
next
  case False
  let ?theirs = "rev (remdups (rev (scan_lines [] contents)))"
  let ?h = "sets w @ [?theirs, ?theirs, merged]"
  have "TreeCallbackFn env tracked ''/'' t w =
       (case db_WriteBlob env (odb w)
               \<lparr>Contents = serialize merged, Size = int (length (serialize merged))\<rparr> of
          (Inl err, db') \<Rightarrow> (Inl err, w\<lparr>sets := ?h, odb := db'\<rparr>)
        | (Inr blob, db') \<Rightarrow>
            (Inr (Merge t \<lparr>Name = ''.gitattributes'', Oid = blob, Filemode = 33188\<rparr>),
             w\<lparr>sets := ?h, odb := db'\<rparr>))"
    using live False
    by (simp add: TreeCallbackFn_def trackedFromAttrs_existing [OF existing] Clone_def
          Union_set_def trackedToBlob_def merged nth_append split: prod.splits sum.splits)
  then show ?thesis
    by (intro exI [of _ ?h]) simp
qed

text \<open>
  C1. At the root (path \<^verbatim>\<open>/\<close>), when the attribute file of the tree can be read (or the
  tree has none) and the new blob can be written, \<^verbatim>\<open>TreeCallbackFn\<close> returns the entries of
  the tree with the entry named \<^verbatim>\<open>.gitattributes\<close> replaced, or added at the end when the
  tree has none, by an entry of mode \<^verbatim>\<open>0100644\<close> whose id is the one the database gave to
  the blob of the merged lines. The merged lines are the lines of the existing attribute
  file, each where it first occurs, followed by the canonical lines that are not among
  them, in canonical order; no line occurs twice; every line is written with a line feed
  after it.
\<close>

theorem TreeCallbackFn_root_merges:
  assumes live: "tracked < length (sets w)"
    and canonical: "distinct (sets w ! tracked)"
    and existing: "case find (\<lambda>e. Name e = ''.gitattributes'') (Entries t) of
             None \<Rightarrow> contents = [] | Some e \<Rightarrow> db_Blob env (odb w) (Oid e) = Inr contents"
    and theirs: "theirs = rev (remdups (rev (scan_lines [] contents)))"
    and merged: "merged = theirs @ filter (\<lambda>l. l \<notin> set theirs) (sets w ! tracked)"
    and written: "db_WriteBlob env (odb w)
             \<lparr>Contents = serialize merged, Size = int (length (serialize merged))\<rparr> = (Inr blob, db')"
    and entry: "entry = \<lparr>Name = ''.gitattributes'', Oid = blob, Filemode = 33188\<rparr>"
  shows "\<exists>w'. TreeCallbackFn env tracked ''/'' t w =
            (Inr \<lparr>Entries =
                    (if list_ex (\<lambda>e. Name e = ''.gitattributes'') (Entries t)
                     then map (\<lambda>e. if Name e = ''.gitattributes'' then entry else e) (Entries t)
                     else Entries t @ [entry])\<rparr>, w') \<and>
          odb w' = db' \<and> distinct merged"
proof -
  have m: "merged = union (rev (remdups (rev (scan_lines [] contents)))) (sets w ! tracked)"
    using canonical by (simp add: merged theirs union_distinct)
  have d: "distinct merged"
    unfolding m by (rule distinct_union) simp
  from TreeCallbackFn_root [OF live existing m] written entry d show ?thesis
    by (auto simp: Merge_def)
qed

theorem TreeCallbackFn_root_merges_witness:
  "TreeCallbackFn (demo_env \<lparr>Include = [''*.bin''], Exclude = []\<rparr> [] (False, None)) 0 ''/''
     \<lparr>Entries = [\<lparr>Name = ''.gitattributes'', Oid = ''7'', Filemode = 33188\<rparr>,
                 \<lparr>Name = ''a.bin'', Oid = ''8'', Filemode = 33188\<rparr>]\<rparr>
     \<lparr>sets = [[''*.bin text -filter -merge -diff'']],
      odb = [(''7'', ''*.psd filter=lfs diff=lfs merge=lfs -text'' @ [CHR 0x0A])]\<rparr> =
   (Inr \<lparr>Entries =
           [\<lparr>Name = ''.gitattributes'',
             Oid = ''*.psd filter=lfs diff=lfs merge=lfs -text'' @ [CHR 0x0A] @
                   ''*.bin text -filter -merge -diff'' @ [CHR 0x0A],
             Filemode = 33188\<rparr>,
            \<lparr>Name = ''a.bin'', Oid = ''8'', Filemode = 33188\<rparr>]\<rparr>,
    \<lparr>sets = [[''*.bin text -filter -merge -diff''],
             [''*.psd filter=lfs diff=lfs merge=lfs -text''],
             [''*.psd filter=lfs diff=lfs merge=lfs -text'', ''*.bin text -filter -merge -diff'']],
      odb = [(''7'', ''*.psd filter=lfs diff=lfs merge=lfs -text'' @ [CHR 0x0A]),
             (''*.psd filter=lfs diff=lfs merge=lfs -text'' @ [CHR 0x0A] @
                ''*.bin text -filter -merge -diff'' @ [CHR 0x0A],
              ''*.psd filter=lfs diff=lfs merge=lfs -text'' @ [CHR 0x0A] @
                ''*.bin text -filter -merge -diff'' @ [CHR 0x0A])]\<rparr>)"
proof -
  let ?env = "demo_env \<lparr>Include = [''*.bin''], Exclude = []\<rparr> [] (False, None)"
  let ?t = "\<lparr>Entries = [\<lparr>Name = ''.gitattributes'', Oid = ''7'', Filemode = 33188\<rparr>,
                 \<lparr>Name = ''a.bin'', Oid = ''8'', Filemode = 33188\<rparr>]\<rparr>"
  let ?w = "\<lparr>sets = [[''*.bin text -filter -merge -diff'']],
      odb = [(''7'', ''*.psd filter=lfs diff=lfs merge=lfs -text'' @ [CHR 0x0A])]\<rparr>"
  let ?theirs = "[''*.psd filter=lfs diff=lfs merge=lfs -text'']"
  let ?merged = "[''*.psd filter=lfs diff=lfs merge=lfs -text'', ''*.bin text -filter -merge -diff'']"
  let ?blob = "''*.psd filter=lfs diff=lfs merge=lfs -text'' @ [CHR 0x0A] @
                   ''*.bin text -filter -merge -diff'' @ [CHR 0x0A]"
  have live: "0 < length (sets ?w)" by simp
  have canonical: "distinct (sets ?w ! 0)" by simp
  have existing: "case find (\<lambda>e. Name e = ''.gitattributes'') (Entries ?t) of
             None \<Rightarrow> ''*.psd filter=lfs diff=lfs merge=lfs -text'' @ [CHR 0x0A] = []
           | Some e \<Rightarrow> db_Blob ?env (odb ?w) (Oid e) =
                        Inr (''*.psd filter=lfs diff=lfs merge=lfs -text'' @ [CHR 0x0A])"
    by (simp add: demo_env_def demo_Blob_def)
  have theirs: "?theirs = rev (remdups (rev (scan_lines [] (''*.psd filter=lfs diff=lfs merge=lfs -text'' @ [CHR 0x0A]))))"
    by simp
  have merged: "?merged = ?theirs @ filter (\<lambda>l. l \<notin> set ?theirs) (sets ?w ! 0)"
    by simp
  have written: "db_WriteBlob ?env (odb ?w)
             \<lparr>Contents = serialize ?merged, Size = int (length (serialize ?merged))\<rparr> =
           (Inr ?blob, odb ?w @ [(?blob, ?blob)])"
    by (simp add: demo_env_def demo_WriteBlob_def serialize_def)
  from TreeCallbackFn_root_merges [OF live canonical existing theirs merged written refl]
  obtain w' where
    r: "TreeCallbackFn ?env 0 ''/'' ?t ?w =
          (Inr \<lparr>Entries = [\<lparr>Name = ''.gitattributes'', Oid = ?blob, Filemode = 33188\<rparr>,
                           \<lparr>Name = ''a.bin'', Oid = ''8'', Filemode = 33188\<rparr>]\<rparr>, w')"
    by auto
  have "snd (TreeCallbackFn ?env 0 ''/'' ?t ?w) =
     \<lparr>sets = [[''*.bin text -filter -merge -diff''], ?theirs, ?merged],
      odb = odb ?w @ [(?blob, ?blob)]\<rparr>"
    by (simp add: TreeCallbackFn_def trackedFromAttrs_def demo_env_def demo_Blob_def
          NewOrderedSet_def Add_def add_def Clone_def Union_set_def union_def trackedToBlob_def
          demo_WriteBlob_def serialize_def Let_def)
  with r show ?thesis by simp
qed

subsection \<open>The canonical set\<close>

lemma prefix_nth:
  assumes "take n ys = xs" and "i < length xs"
  shows "ys ! i = xs ! i"
proof -
  from assms have "i < n" by auto
  then have "take n ys ! i = ys ! i" by simp
  with assms(1) show ?thesis by simp
qed

lemma TreeCallbackFn_root_sets:
  assumes live: "tracked < length (sets w)"
    and existing: "case find (\<lambda>e. Name e = ''.gitattributes'') (Entries t) of
             None \<Rightarrow> contents = [] | Some e \<Rightarrow> db_Blob env (odb w) (Oid e) = Inr contents"
  shows "take (length (sets w)) (sets (snd (TreeCallbackFn env tracked ''/'' t w))) = sets w \<and>
         length (sets w) \<le> length (sets (snd (TreeCallbackFn env tracked ''/'' t w)))"
proof -
  let ?merged = "union (rev (remdups (rev (scan_lines [] contents)))) (sets w ! tracked)"
  let ?blob = "\<lparr>Contents = serialize ?merged, Size = int (length (serialize ?merged))\<rparr>"
  from TreeCallbackFn_root [OF live existing refl]
  obtain h where h: "take (length (sets w)) h = sets w" "length (sets w) < length h"
    and call: "TreeCallbackFn env tracked ''/'' t w =
       (case db_WriteBlob env (odb w) ?blob of
          (Inl err, db') \<Rightarrow> (Inl err, w\<lparr>sets := h, odb := db'\<rparr>)
        | (Inr blob, db') \<Rightarrow>
            (Inr (Merge t \<lparr>Name = ''.gitattributes'', Oid = blob, Filemode = 33188\<rparr>),
             w\<lparr>sets := h, odb := db'\<rparr>))"
    by blast
  obtain res db' where wr: "db_WriteBlob env (odb w) ?blob = (res, db')"
    by (cases "db_WriteBlob env (odb w) ?blob")
  have "sets (snd (TreeCallbackFn env tracked ''/'' t w)) = h"
    by (cases res) (simp_all add: call wr)
  with h show ?thesis by simp
qed

lemma TreeCallbackFn_frame:
  assumes live: "tracked < length (sets w)"
    and call: "TreeCallbackFn env tracked path t w = (res, w')"
  shows "take (length (sets w)) (sets w') = sets w \<and> length (sets w) \<le> length (sets w')"
proof (cases "path = ''/''")
  case False
  with call show ?thesis by (simp add: TreeCallbackFn_def)
next
  case root: True
  show ?thesis
  proof (cases "find (\<lambda>e. Name e = ''.gitattributes'') (Entries t)")
    case None
    then have "case find (\<lambda>e. Name e = ''.gitattributes'') (Entries t) of
             None \<Rightarrow> [] = [] | Some e \<Rightarrow> db_Blob env (odb w) (Oid e) = Inr []"
      by simp
    from TreeCallbackFn_root_sets [OF live this] call root show ?thesis
      by simp
  next
    case (Some e)
    show ?thesis
    proof (cases "db_Blob env (odb w) (Oid e)")
      case (Inl err)
      with Some call root show ?thesis
        by (simp add: TreeCallbackFn_def trackedFromAttrs_failed)
    next
      case (Inr contents)
      with Some have "case find (\<lambda>e. Name e = ''.gitattributes'') (Entries t) of
             None \<Rightarrow> contents = [] | Some e \<Rightarrow> db_Blob env (odb w) (Oid e) = Inr contents"
        by simp
      from TreeCallbackFn_root_sets [OF live this] call root show ?thesis
        by simp
    qed
  qed
qed

lemma call_visit_frame:
  assumes "tracked < length (sets (world p))"
    and "call_visit (export_options env tracked) v p = (res, p')"
  shows "take (length (sets (world p))) (sets (world p')) = sets (world p) \<and>
         length (sets (world p)) \<le> length (sets (world p'))"
proof (cases v)
  case (VisitBlob path b)
  with assms show ?thesis
    by (auto simp: emit_def split: sum.splits)
next
  case (VisitTree path t)
  obtain r w' where c: "TreeCallbackFn env tracked path t (world p) = (r, w')"
    by (cases "TreeCallbackFn env tracked path t (world p)")
  from TreeCallbackFn_frame [OF assms(1) c] assms(2) c VisitTree show ?thesis
    by (auto simp: export_options_def emit_def split: sum.splits)
qed

lemma rewrite_visits_frame:
  assumes "tracked < length (sets (world p))"
    and "rewrite_visits (export_options env tracked) vs p = (res, p')"
  shows "take (length (sets (world p))) (sets (world p')) = sets (world p) \<and>
         length (sets (world p)) \<le> length (sets (world p'))"
  using assms
proof (induction vs arbitrary: p res p')
  case Nil
  then show ?case by simp
next
  case (Cons v vs)
  obtain r1 p1 where c: "call_visit (export_options env tracked) v p = (r1, p1)"
    by (cases "call_visit (export_options env tracked) v p")
  note f1 = call_visit_frame [OF Cons.prems(1) c]
  show ?case
  proof (cases r1)
    case (Inl err)
    with c Cons.prems(2) f1 show ?thesis by simp
  next
    case (Inr obj)
    obtain r2 p2 where r: "rewrite_visits (export_options env tracked) vs p1 = (r2, p2)"
      by (cases "rewrite_visits (export_options env tracked) vs p1")
    have live1: "tracked < length (sets (world p1))"
      using f1 Cons.prems(1) by simp
    note f2 = Cons.IH [OF live1 r]
    have p': "p' = p2"
      using Cons.prems(2) c Inr r by (simp split: sum.splits)
    have "take (length (sets (world p))) (sets (world p2)) =
            take (length (sets (world p))) (take (length (sets (world p1))) (sets (world p2)))"
      using f1 by (simp add: min_def)
    with f1 f2 show ?thesis by (simp add: p')
  qed
qed

lemma rewrite_start_eq:
  "rewrite_start env w r =
     (length (sets w),
      \<lparr>world = w\<lparr>sets := sets w @
                 [rev (remdups (rev (map (export_line env) (Include (cmd_filter env)) @
                                     map (track_line env) (Exclude (cmd_filter env)))))]\<rparr>,
       refs = r, trace = [DbOpen], deferred = [DbClose, LoggerClose], status = Running\<rparr>)"
  by (simp add: rewrite_start_def export_tracked_def trackedFromExportFilter_eq start_def
        emit_def go_defer_def)

text \<open>
  C8. The canonical set is built once, before the rewriter makes its first call (the
  trace holds nothing but the opening of the database), and no call changes it: after any
  sequence of blob and tree calls, whether the sequence ran to its end or stopped at an
  error, and after one more call of \<^verbatim>\<open>TreeCallbackFn\<close> on any path and tree, the set behind
  \<^verbatim>\<open>tracked\<close> still holds the lines \<^verbatim>\<open>trackedFromExportFilter\<close> gave it, in the same order.
  \<^verbatim>\<open>BlobFn\<close> has no access to the heap of sets. The proof is the frame property of the tree
  callback: it writes only to sets it allocated itself (the per-commit set, its clone and,
  when \<^verbatim>\<open>Union\<close> builds a fresh set, the union), whichever way \<^verbatim>\<open>Union\<close> works.
\<close>

theorem canonical_set_never_mutated:
  assumes "rewrite_start env w r = (tracked, p)"
    and "rewrite_visits (export_options env tracked) vs p = (res, p')"
    and "TreeCallbackFn env tracked path t (world p') = (res', w')"
  shows "trace p = [DbOpen] \<and>
         sets (world p) ! tracked =
           rev (remdups (rev (map (export_line env) (Include (cmd_filter env)) @
                               map (track_line env) (Exclude (cmd_filter env))))) \<and>
         sets (world p') ! tracked = sets (world p) ! tracked \<and>
         sets w' ! tracked = sets (world p) ! tracked"
proof -
  from assms(1) have t: "tracked = length (sets w)" and
    p: "p = \<lparr>world = w\<lparr>sets := sets w @
                 [rev (remdups (rev (map (export_line env) (Include (cmd_filter env)) @
                                     map (track_line env) (Exclude (cmd_filter env)))))]\<rparr>,
       refs = r, trace = [DbOpen], deferred = [DbClose, LoggerClose], status = Running\<rparr>"
    by (simp_all add: rewrite_start_eq)
  have live: "tracked < length (sets (world p))"
    by (simp add: t p)
  note f = rewrite_visits_frame [OF live assms(2)]
  then have "take (length (sets (world p))) (sets (world p')) = sets (world p)" by simp
  from prefix_nth [OF this live]
  have visits: "sets (world p') ! tracked = sets (world p) ! tracked" .
  have live': "tracked < length (sets (world p'))"
    using f live by simp
  from TreeCallbackFn_frame [OF live' assms(3)]
  have "take (length (sets (world p'))) (sets w') = sets (world p')" by simp
  from prefix_nth [OF this live']
  have "sets w' ! tracked = sets (world p') ! tracked" .
  with visits show ?thesis by (simp add: t p)
qed

theorem canonical_set_never_mutated_witness:
  "sets (snd (TreeCallbackFn
           (demo_env \<lparr>Include = [''*.bin''], Exclude = []\<rparr> [] (False, None))
           (fst (rewrite_start (demo_env \<lparr>Include = [''*.bin''], Exclude = []\<rparr> [] (False, None))
                   \<lparr>sets = [], odb = []\<rparr> []))
           ''/'' \<lparr>Entries = []\<rparr>
           (world (snd (rewrite_visits
              (export_options (demo_env \<lparr>Include = [''*.bin''], Exclude = []\<rparr> [] (False, None))
                 (fst (rewrite_start (demo_env \<lparr>Include = [''*.bin''], Exclude = []\<rparr> [] (False, None))
                         \<lparr>sets = [], odb = []\<rparr> [])))
              [VisitBlob ''a.bin'' \<lparr>Contents = ''oid 1'', Size = 5\<rparr>,
               VisitTree ''/'' \<lparr>Entries = [\<lparr>Name = ''a.bin'', Oid = ''1'', Filemode = 33188\<rparr>]\<rparr>]
              (snd (rewrite_start (demo_env \<lparr>Include = [''*.bin''], Exclude = []\<rparr> [] (False, None))
                      \<lparr>sets = [], odb = []\<rparr> []))))))) !
     fst (rewrite_start (demo_env \<lparr>Include = [''*.bin''], Exclude = []\<rparr> [] (False, None))
             \<lparr>sets = [], odb = []\<rparr> []) =
   [''*.bin text -filter -merge -diff'']"
proof -
  let ?env = "demo_env \<lparr>Include = [''*.bin''], Exclude = []\<rparr> [] (False, None)"
  have lines: "rev (remdups (rev (map (export_line ?env) (Include (cmd_filter ?env)) @
                               map (track_line ?env) (Exclude (cmd_filter ?env))))) =
               [''*.bin text -filter -merge -diff'']"
    by (simp add: demo_env_def export_line_def backslash_escape_def)
  show ?thesis
    using canonical_set_never_mutated
      [OF prod.collapse [symmetric] prod.collapse [symmetric] prod.collapse [symmetric],
       of ?env "\<lparr>sets = [], odb = []\<rparr>" "[]"
          "[VisitBlob ''a.bin'' \<lparr>Contents = ''oid 1'', Size = 5\<rparr>,
            VisitTree ''/'' \<lparr>Entries = [\<lparr>Name = ''a.bin'', Oid = ''1'', Filemode = 33188\<rparr>]\<rparr>]"
          "''/''" "\<lparr>Entries = []\<rparr>"]
    by (simp only: lines)
qed

subsection \<open>The rewriter and the command\<close>

lemma call_visit_process:
  assumes "call_visit opts v p = (res, p')"
  shows "refs p' = refs p \<and> status p' = status p \<and> deferred p' = deferred p \<and>
         trace p' = trace p @ [visit_event v]"
proof (cases v)
  case (VisitBlob path b)
  with assms show ?thesis
    by (auto simp: emit_def split: sum.splits)
next
  case (VisitTree path t)
  with assms show ?thesis
    by (auto simp: emit_def split: sum.splits prod.splits)
qed

lemma rewrite_visits_process:
  assumes "rewrite_visits opts vs p = (res, p')"
  shows "refs p' = refs p \<and> status p' = status p \<and> deferred p' = deferred p"
  using assms
proof (induction vs arbitrary: p res p')
  case Nil
  then show ?case by simp
next
  case (Cons v vs)
  obtain r1 p1 where c: "call_visit opts v p = (r1, p1)"
    by (cases "call_visit opts v p")
  note s1 = call_visit_process [OF c]
  show ?case
  proof (cases r1)
    case (Inl err)
    with c Cons.prems s1 show ?thesis by simp
  next
    case (Inr obj)
    obtain r2 p2 where r: "rewrite_visits opts vs p1 = (r2, p2)"
      by (cases "rewrite_visits opts vs p1")
    have "p' = p2"
      using Cons.prems c Inr r by (simp split: sum.splits)
    with Cons.IH [OF r] s1 show ?thesis by simp
  qed
qed

lemma rewrite_visits_trace:
  assumes "rewrite_visits opts vs p = (Inr objs, p')"
  shows "trace p' = trace p @ map visit_event vs"
  using assms
proof (induction vs arbitrary: p objs p')
  case Nil
  then show ?case by simp
next
  case (Cons v vs)
  obtain r1 p1 where c: "call_visit opts v p = (r1, p1)"
    by (cases "call_visit opts v p")
  obtain r2 p2 where r: "rewrite_visits opts vs p1 = (r2, p2)"
    by (cases "rewrite_visits opts vs p1")
  from Cons.prems c r obtain obj objs' where
    r1: "r1 = Inr obj" and r2: "r2 = Inr objs'" and p': "p' = p2"
    by (auto split: sum.splits)
  from Cons.IH [OF r [unfolded r2]] call_visit_process [OF c] show ?case
    by (simp add: p')
qed

lemma rewrite_visits_failed:
  assumes "rewrite_visits opts before p = (Inr objs, p1)"
    and "call_visit opts v p1 = (Inl err, p2)"
  shows "rewrite_visits opts (before @ v # after) p = (Inl err, p2)"
  using assms
proof (induction before arbitrary: p objs)
  case Nil
  then show ?case by simp
next
  case (Cons u us)
  obtain r1 q1 where c: "call_visit opts u p = (r1, q1)"
    by (cases "call_visit opts u p")
  obtain r2 q2 where r: "rewrite_visits opts us q1 = (r2, q2)"
    by (cases "rewrite_visits opts us q1")
  from Cons.prems(1) c r obtain obj objs' where
    r1: "r1 = Inr obj" and r2: "r2 = Inr objs'" and q2: "q2 = p1"
    by (auto split: sum.splits)
  from Cons.IH [OF r [unfolded r2 q2] Cons.prems(2)] c r1 show ?case
    by simp
qed

lemma migrateExportCommand_rewrite:
  assumes "getObjectDatabase env = None" and "Include (cmd_filter env) \<noteq> []"
    and "rewrite_start env w r = (tracked, p)"
  shows "migrateExportCommand env w r =
     (let p3 = migrate env (export_options env tracked) p
      in if status p3 = Running then checkout_unless_bare env p3 else p3)"
  using assms by (simp add: migrateExportCommand_def rewrite_start_def Let_def)

subsection \<open>An empty include list\<close>

text \<open>
  C3. When the include list of the filter is empty, the command ends in \<^verbatim>\<open>ExitWithError\<close>:
  the process exits with an error, the fatal message is the last thing it does, and no
  callback, no update of the refs and no checkout is in the trace, so the rewriter was never
  started. The heap of sets and the object database are as they were (nothing was written)
  and so are the refs. When the database had opened, the error is the one of the source,
  \<^verbatim>\<open>fatal: one or more files must be specified with --include\<close>; when it had not, the
  command had already exited with the error of opening it.
\<close>

theorem empty_include_exits:
  assumes "Include (cmd_filter env) = []"
  shows "(\<exists>err. status (migrateExportCommand env w r) = Exited err \<and>
               trace (migrateExportCommand env w r) =
                 (case getObjectDatabase env of None \<Rightarrow> [DbOpen, Fatal err] | Some e \<Rightarrow> [Fatal err])) \<and>
         (getObjectDatabase env = None \<longrightarrow>
            status (migrateExportCommand env w r) =
              Exited (Errorf ''fatal: one or more files must be specified with --include'')) \<and>
         world (migrateExportCommand env w r) = w \<and>
         refs (migrateExportCommand env w r) = r"
  using assms
  by (cases "getObjectDatabase env")
     (simp_all add: migrateExportCommand_def ExitWithError_def go_defer_def emit_def start_def)

theorem empty_include_exits_witness:
  "Include (cmd_filter (demo_env \<lparr>Include = [], Exclude = [''*.psd'']\<rparr>
      [VisitBlob ''a.bin'' \<lparr>Contents = ''oid 1'', Size = 5\<rparr>] (False, None))) = [] \<and>
   migrateExportCommand
     (demo_env \<lparr>Include = [], Exclude = [''*.psd'']\<rparr>
        [VisitBlob ''a.bin'' \<lparr>Contents = ''oid 1'', Size = 5\<rparr>] (False, None))
     \<lparr>sets = [], odb = [(''1'', ''oid 1'')]\<rparr> [(''refs/heads/main'', ''c0'')] =
   \<lparr>world = \<lparr>sets = [], odb = [(''1'', ''oid 1'')]\<rparr>,
    refs = [(''refs/heads/main'', ''c0'')],
    trace = [DbOpen, Fatal (Errorf ''fatal: one or more files must be specified with --include'')],
    deferred = [DbClose, LoggerClose],
    status = Exited (Errorf ''fatal: one or more files must be specified with --include'')\<rparr>"
proof -
  let ?env = "demo_env \<lparr>Include = [], Exclude = [''*.psd'']\<rparr>
      [VisitBlob ''a.bin'' \<lparr>Contents = ''oid 1'', Size = 5\<rparr>] (False, None)"
  let ?P = "migrateExportCommand ?env \<lparr>sets = [], odb = [(''1'', ''oid 1'')]\<rparr>
              [(''refs/heads/main'', ''c0'')]"
  have empty: "Include (cmd_filter ?env) = []"
    by (simp add: demo_env_def)
  have opened: "getObjectDatabase ?env = None"
    by (simp add: demo_env_def)
  from empty_include_exits [OF empty, of "\<lparr>sets = [], odb = [(''1'', ''oid 1'')]\<rparr>"
      "[(''refs/heads/main'', ''c0'')]"] opened
  have "status ?P = Exited (Errorf ''fatal: one or more files must be specified with --include'')"
    and "trace ?P = [DbOpen, Fatal (Errorf ''fatal: one or more files must be specified with --include'')]"
    and "world ?P = \<lparr>sets = [], odb = [(''1'', ''oid 1'')]\<rparr>"
    and "refs ?P = [(''refs/heads/main'', ''c0'')]"
    by auto
  moreover have "deferred ?P = [DbClose, LoggerClose]"
    using empty opened
    by (simp add: migrateExportCommand_def ExitWithError_def go_defer_def emit_def start_def)
  ultimately have "?P = \<lparr>world = \<lparr>sets = [], odb = [(''1'', ''oid 1'')]\<rparr>,
    refs = [(''refs/heads/main'', ''c0'')],
    trace = [DbOpen, Fatal (Errorf ''fatal: one or more files must be specified with --include'')],
    deferred = [DbClose, LoggerClose],
    status = Exited (Errorf ''fatal: one or more files must be specified with --include'')\<rparr>"
    by (cases ?P) simp
  with empty show ?thesis by simp
qed

subsection \<open>The deferred \<^verbatim>\<open>db.Close()\<close>\<close>




text \<open>
  With an empty include list the process ends at the fatal message, with \<^verbatim>\<open>db.Close()\<close>
  still among the deferred calls.
\<close>

lemma exit_on_empty_include_leaves_close_deferred:
  "trace (migrateExportCommand (demo_env \<lparr>Include = [], Exclude = []\<rparr> [] (False, None))
            \<lparr>sets = [], odb = []\<rparr> []) =
     [DbOpen, Fatal (Errorf ''fatal: one or more files must be specified with --include'')] \<and>
   deferred (migrateExportCommand (demo_env \<lparr>Include = [], Exclude = []\<rparr> [] (False, None))
            \<lparr>sets = [], odb = []\<rparr> []) = [DbClose, LoggerClose] \<and>
   DbClose \<notin> set (trace (migrateExportCommand (demo_env \<lparr>Include = [], Exclude = []\<rparr> [] (False, None))
            \<lparr>sets = [], odb = []\<rparr> []))"
  by (simp add: migrateExportCommand_def demo_env_def ExitWithError_def go_defer_def emit_def
        start_def)





subsection \<open>A callback that fails\<close>

lemma BlobFn_failed:
  "Base path \<noteq> ''.gitattributes'' \<Longrightarrow> smudge env path (Contents b) = (buf, Some err) \<Longrightarrow>
   BlobFn env path b = Inl err"
  by (simp add: BlobFn_def)

lemma TreeCallbackFn_failed:
  "find (\<lambda>e. Name e = ''.gitattributes'') (Entries t) = Some e \<Longrightarrow>
   db_Blob env (odb w) (Oid e) = Inl err \<Longrightarrow>
   TreeCallbackFn env tracked ''/'' t w = (Inl err, w)"
  by (simp add: TreeCallbackFn_def trackedFromAttrs_failed)

text \<open>
  C7. Take a run in which the database opened and the include list is not empty, and the
  first visit whose callback fails: either the content filter returns an error for a blob
  that is not an attribute file, or the attribute blob of a root tree cannot be read. The
  callback returns that very error and nothing else changes (no blob was written), the
  command exits with that error, the refs are the ones it started with, and the trace ends
  with the failed call and the fatal message: no later visit is made, the refs are not
  updated and the work tree is not checked out.
\<close>

theorem transform_failure_aborts:
  assumes opened: "getObjectDatabase env = None"
    and nonempty: "Include (cmd_filter env) \<noteq> []"
    and start: "rewrite_start env w r = (tracked, p)"
    and order: "visits env = before @ v # after"
    and earlier: "rewrite_visits (export_options env tracked) before p = (Inr objs, p1)"
    and failure:
      "(\<exists>path b buf. v = VisitBlob path b \<and> Base path \<noteq> ''.gitattributes'' \<and>
                     smudge env path (Contents b) = (buf, Some err)) \<or>
       (\<exists>t e. v = VisitTree ''/'' t \<and>
              find (\<lambda>e. Name e = ''.gitattributes'') (Entries t) = Some e \<and>
              db_Blob env (odb (world p1)) (Oid e) = Inl err)"
  shows "(case v of
            VisitBlob path b \<Rightarrow> BlobFn env path b = Inl err
          | VisitTree path t \<Rightarrow>
              TreeCallbackFn env tracked path t (world p1) = (Inl err, world p1)) \<and>
         status (migrateExportCommand env w r) = Exited err \<and>
         refs (migrateExportCommand env w r) = r \<and>
         world (migrateExportCommand env w r) = world p1 \<and>
         trace (migrateExportCommand env w r) =
           [DbOpen] @ map visit_event before @ [visit_event v, Fatal err]"
proof -
  let ?opts = "export_options env tracked"
  have callback: "case v of
            VisitBlob path b \<Rightarrow> BlobFn env path b = Inl err
          | VisitTree path t \<Rightarrow>
              TreeCallbackFn env tracked path t (world p1) = (Inl err, world p1)"
    using failure
  proof
    assume "\<exists>path b buf. v = VisitBlob path b \<and> Base path \<noteq> ''.gitattributes'' \<and>
                     smudge env path (Contents b) = (buf, Some err)"
    then obtain path b buf where "v = VisitBlob path b" "Base path \<noteq> ''.gitattributes''"
      "smudge env path (Contents b) = (buf, Some err)"
      by blast
    then show ?thesis
      by (simp add: BlobFn_failed)
  next
    assume "\<exists>t e. v = VisitTree ''/'' t \<and>
              find (\<lambda>e. Name e = ''.gitattributes'') (Entries t) = Some e \<and>
              db_Blob env (odb (world p1)) (Oid e) = Inl err"
    then obtain t e where "v = VisitTree ''/'' t"
      "find (\<lambda>e. Name e = ''.gitattributes'') (Entries t) = Some e"
      "db_Blob env (odb (world p1)) (Oid e) = Inl err"
      by blast
    then show ?thesis
      by (simp add: TreeCallbackFn_failed)
  qed
  then have call: "call_visit ?opts v p1 = (Inl err, emit (visit_event v) p1)"
    by (cases v) (simp_all add: export_options_def emit_def)
  from rewrite_visits_failed [OF earlier call]
  have "rewrite_visits ?opts (visits env) p = (Inl err, emit (visit_event v) p1)"
    by (simp add: order)
  then have m: "migrate env ?opts p = ExitWithError err (emit (visit_event v) p1)"
    by (simp add: migrate_def Rewrite_def)
  have run: "migrateExportCommand env w r = ExitWithError err (emit (visit_event v) p1)"
    by (simp add: migrateExportCommand_rewrite [OF opened nonempty start] m ExitWithError_def)
  from start have p: "trace p = [DbOpen]" "refs p = r"
    by (auto simp: rewrite_start_eq)
  from rewrite_visits_process [OF earlier] rewrite_visits_trace [OF earlier] p
  have p1: "refs p1 = r" "trace p1 = [DbOpen] @ map visit_event before"
    by simp_all
  show ?thesis
    using callback p1 by (simp add: run ExitWithError_def emit_def)
qed

theorem transform_failure_aborts_witness:
  "status (migrateExportCommand
     (demo_env \<lparr>Include = [''*.bin''], Exclude = []\<rparr>
        [VisitBlob ''a.bin'' \<lparr>Contents = ''oid 1'', Size = 5\<rparr>,
         VisitTree ''/'' \<lparr>Entries = [\<lparr>Name = ''.gitattributes'', Oid = ''gone'', Filemode = 33188\<rparr>]\<rparr>,
         VisitBlob ''b.bin'' \<lparr>Contents = ''oid 1'', Size = 5\<rparr>] (False, None))
     \<lparr>sets = [], odb = []\<rparr> [(''refs/heads/main'', ''c0'')]) =
     Exited (Errorf ''object not found'') \<and>
   refs (migrateExportCommand
     (demo_env \<lparr>Include = [''*.bin''], Exclude = []\<rparr>
        [VisitBlob ''a.bin'' \<lparr>Contents = ''oid 1'', Size = 5\<rparr>,
         VisitTree ''/'' \<lparr>Entries = [\<lparr>Name = ''.gitattributes'', Oid = ''gone'', Filemode = 33188\<rparr>]\<rparr>,
         VisitBlob ''b.bin'' \<lparr>Contents = ''oid 1'', Size = 5\<rparr>] (False, None))
     \<lparr>sets = [], odb = []\<rparr> [(''refs/heads/main'', ''c0'')]) =
     [(''refs/heads/main'', ''c0'')] \<and>
   trace (migrateExportCommand
     (demo_env \<lparr>Include = [''*.bin''], Exclude = []\<rparr>
        [VisitBlob ''a.bin'' \<lparr>Contents = ''oid 1'', Size = 5\<rparr>,
         VisitTree ''/'' \<lparr>Entries = [\<lparr>Name = ''.gitattributes'', Oid = ''gone'', Filemode = 33188\<rparr>]\<rparr>,
         VisitBlob ''b.bin'' \<lparr>Contents = ''oid 1'', Size = 5\<rparr>] (False, None))
     \<lparr>sets = [], odb = []\<rparr> [(''refs/heads/main'', ''c0'')]) =
     [DbOpen, CallBlobFn ''a.bin'', CallTreeCallbackFn ''/'', Fatal (Errorf ''object not found'')]"
proof -
  let ?t = "\<lparr>Entries = [\<lparr>Name = ''.gitattributes'', Oid = ''gone'', Filemode = 33188\<rparr>]\<rparr>"
  let ?before = "[VisitBlob ''a.bin'' \<lparr>Contents = ''oid 1'', Size = 5\<rparr>]"
  let ?after = "[VisitBlob ''b.bin'' \<lparr>Contents = ''oid 1'', Size = 5\<rparr>]"
  let ?env = "demo_env \<lparr>Include = [''*.bin''], Exclude = []\<rparr>
        (?before @ VisitTree ''/'' ?t # ?after) (False, None)"
  let ?w = "\<lparr>sets = [], odb = []\<rparr> :: (oid \<times> string) list world"
  let ?r = "[(''refs/heads/main'', ''c0'')]"
  let ?p = "\<lparr>world = \<lparr>sets = [[''*.bin text -filter -merge -diff'']], odb = []\<rparr>, refs = ?r,
             trace = [DbOpen], deferred = [DbClose, LoggerClose], status = Running\<rparr>"
  let ?p1 = "\<lparr>world = \<lparr>sets = [[''*.bin text -filter -merge -diff'']], odb = []\<rparr>, refs = ?r,
             trace = [DbOpen, CallBlobFn ''a.bin''], deferred = [DbClose, LoggerClose],
             status = Running\<rparr>"
  have opened: "getObjectDatabase ?env = None"
    by (simp add: demo_env_def)
  have nonempty: "Include (cmd_filter ?env) \<noteq> []"
    by (simp add: demo_env_def)
  have start: "rewrite_start ?env ?w ?r = (0, ?p)"
    by (simp add: rewrite_start_eq) (simp add: demo_env_def export_line_def backslash_escape_def)
  have order: "visits ?env = ?before @ VisitTree ''/'' ?t # ?after"
    by (simp add: demo_env_def)
  have base: "Base ''a.bin'' \<noteq> ''.gitattributes''"
    by (simp add: Base_def IsPathSeparator_def)
  have earlier: "rewrite_visits (export_options ?env 0) ?before ?p =
                   (Inr [BlobObject \<lparr>Contents = ''real bytes'', Size = 10\<rparr>], ?p1)"
    using base
    by (simp add: export_options_def BlobFn_def emit_def demo_env_def demo_smudge_def)
  have failure:
    "(\<exists>path b buf. VisitTree ''/'' ?t = VisitBlob path b \<and> Base path \<noteq> ''.gitattributes'' \<and>
                     smudge ?env path (Contents b) = (buf, Some (Errorf ''object not found''))) \<or>
       (\<exists>t e. VisitTree ''/'' ?t = VisitTree ''/'' t \<and>
              find (\<lambda>e. Name e = ''.gitattributes'') (Entries t) = Some e \<and>
              db_Blob ?env (odb (world ?p1)) (Oid e) = Inl (Errorf ''object not found''))"
    by (simp add: demo_env_def demo_Blob_def)
  from transform_failure_aborts [OF opened nonempty start order earlier failure]
  show ?thesis by simp
qed

subsection \<open>The check for a bare repository\<close>

text \<open>The error of \<^verbatim>\<open>git.IsBare()\<close> is read nowhere.\<close>

lemma BlobFn_IsBare: "BlobFn (env\<lparr>IsBare := x\<rparr>) = BlobFn env"
  by (intro ext) (simp add: BlobFn_def)

lemma trackedFromAttrs_IsBare: "trackedFromAttrs (env\<lparr>IsBare := x\<rparr>) = trackedFromAttrs env"
  by (intro ext) (simp add: trackedFromAttrs_def cong: option.case_cong)

lemma trackedToBlob_IsBare: "trackedToBlob (env\<lparr>IsBare := x\<rparr>) = trackedToBlob env"
  by (intro ext) (simp add: trackedToBlob_def)

lemma TreeCallbackFn_IsBare: "TreeCallbackFn (env\<lparr>IsBare := x\<rparr>) = TreeCallbackFn env"
  by (intro ext)
     (simp add: TreeCallbackFn_def trackedFromAttrs_IsBare trackedToBlob_IsBare
        cong: prod.case_cong sum.case_cong)

lemma export_options_IsBare: "export_options (env\<lparr>IsBare := x\<rparr>) = export_options env"
  by (intro ext) (simp add: export_options_def BlobFn_IsBare TreeCallbackFn_IsBare)

lemma export_tracked_IsBare: "export_tracked (env\<lparr>IsBare := x\<rparr>) = export_tracked env"
  by (intro ext)
     (simp add: export_tracked_def trackedFromExportFilter_def export_line_def track_line_def)

lemma Rewrite_IsBare: "Rewrite (env\<lparr>IsBare := x\<rparr>) = Rewrite env"
  by (intro ext) (simp add: Rewrite_def split: prod.splits sum.splits)

lemma migrate_IsBare: "migrate (env\<lparr>IsBare := x\<rparr>) = migrate env"
  by (intro ext) (simp add: migrate_def Rewrite_IsBare)

lemma checkout_unless_bare_error:
  "IsBare env = (bare, err) \<Longrightarrow>
   checkout_unless_bare (env\<lparr>IsBare := (bare, None)\<rparr>) = checkout_unless_bare env"
  by (intro ext) (simp add: checkout_unless_bare_def)

lemma migrateExportCommand_IsBare_error:
  assumes "IsBare env = (bare, err)"
  shows "migrateExportCommand env w r = migrateExportCommand (env\<lparr>IsBare := (bare, None)\<rparr>) w r"
  unfolding migrateExportCommand_def export_options_IsBare export_tracked_IsBare migrate_IsBare
    checkout_unless_bare_error [OF assms]
  by (cases "getObjectDatabase env") (simp_all add: Let_def)

text \<open>
  C10. After a complete rewrite, when \<^verbatim>\<open>git.IsBare()\<close> fails (it returns an error, and
  \<^verbatim>\<open>false\<close> with it), the error is dropped: the command checks the work tree out and ends
  as the checkout ends, exactly as it does when \<^verbatim>\<open>git.IsBare()\<close> returns \<^verbatim>\<open>false\<close> and no
  error.
\<close>

theorem IsBare_error_discarded:
  assumes opened: "getObjectDatabase env = None"
    and nonempty: "Include (cmd_filter env) \<noteq> []"
    and start: "rewrite_start env w r = (tracked, p)"
    and rewritten: "rewrite_visits (export_options env tracked) (visits env) p = (Inr objs, p1)"
    and bare: "IsBare env = (False, Some err)"
  shows "trace (migrateExportCommand env w r) =
           [DbOpen] @ map visit_event (visits env) @ [UpdateRefs, GitCheckout] @
           (case Checkout env of None \<Rightarrow> [DbClose, LoggerClose] | Some e \<Rightarrow> [Fatal e]) \<and>
         status (migrateExportCommand env w r) =
           (case Checkout env of None \<Rightarrow> Returned | Some e \<Rightarrow> Exited e) \<and>
         migrateExportCommand env w r =
           migrateExportCommand (env\<lparr>IsBare := (False, None)\<rparr>) w r"
proof -
  let ?opts = "export_options env tracked"
  let ?p2 = "(emit UpdateRefs p1)\<lparr>refs := rewritten_refs env objs (refs p1)\<rparr>"
  have "opt_UpdateRefs ?opts"
    by (simp add: export_options_def)
  then have m: "migrate env ?opts p = ?p2"
    by (simp add: migrate_def Rewrite_def rewritten)
  from start have p: "trace p = [DbOpen]" "deferred p = [DbClose, LoggerClose]" "status p = Running"
    by (auto simp: rewrite_start_eq)
  from rewrite_visits_process [OF rewritten] rewrite_visits_trace [OF rewritten] p
  have p1: "status p1 = Running" "deferred p1 = [DbClose, LoggerClose]"
    "trace p1 = [DbOpen] @ map visit_event (visits env)"
    by simp_all
  have "migrateExportCommand env w r = checkout_unless_bare env ?p2"
    using p1 by (simp add: migrateExportCommand_rewrite [OF opened nonempty start] m emit_def)
  then have "trace (migrateExportCommand env w r) =
           [DbOpen] @ map visit_event (visits env) @ [UpdateRefs, GitCheckout] @
           (case Checkout env of None \<Rightarrow> [DbClose, LoggerClose] | Some e \<Rightarrow> [Fatal e]) \<and>
         status (migrateExportCommand env w r) =
           (case Checkout env of None \<Rightarrow> Returned | Some e \<Rightarrow> Exited e)"
    using p1 bare
    by (cases "Checkout env")
       (simp_all add: checkout_unless_bare_def emit_def ExitWithError_def go_return_def)
  with migrateExportCommand_IsBare_error [OF bare] show ?thesis
    by simp
qed

theorem IsBare_error_discarded_witness:
  "trace (migrateExportCommand
     (demo_env \<lparr>Include = [''*.bin''], Exclude = []\<rparr>
        [VisitBlob ''a.bin'' \<lparr>Contents = ''oid 1'', Size = 5\<rparr>]
        (False, Some (Errorf ''not a git repository'')))
     \<lparr>sets = [], odb = []\<rparr> [(''refs/heads/main'', ''c0'')]) =
     [DbOpen, CallBlobFn ''a.bin'', UpdateRefs, GitCheckout, DbClose, LoggerClose] \<and>
   status (migrateExportCommand
     (demo_env \<lparr>Include = [''*.bin''], Exclude = []\<rparr>
        [VisitBlob ''a.bin'' \<lparr>Contents = ''oid 1'', Size = 5\<rparr>]
        (False, Some (Errorf ''not a git repository'')))
     \<lparr>sets = [], odb = []\<rparr> [(''refs/heads/main'', ''c0'')]) = Returned"
proof -
  let ?visits = "[VisitBlob ''a.bin'' \<lparr>Contents = ''oid 1'', Size = 5\<rparr>]"
  let ?env = "demo_env \<lparr>Include = [''*.bin''], Exclude = []\<rparr> ?visits
                (False, Some (Errorf ''not a git repository''))"
  let ?w = "\<lparr>sets = [], odb = []\<rparr> :: (oid \<times> string) list world"
  let ?r = "[(''refs/heads/main'', ''c0'')]"
  let ?p = "\<lparr>world = \<lparr>sets = [[''*.bin text -filter -merge -diff'']], odb = []\<rparr>, refs = ?r,
             trace = [DbOpen], deferred = [DbClose, LoggerClose], status = Running\<rparr>"
  let ?p1 = "\<lparr>world = \<lparr>sets = [[''*.bin text -filter -merge -diff'']], odb = []\<rparr>, refs = ?r,
             trace = [DbOpen, CallBlobFn ''a.bin''], deferred = [DbClose, LoggerClose],
             status = Running\<rparr>"
  have opened: "getObjectDatabase ?env = None"
    by (simp add: demo_env_def)
  have nonempty: "Include (cmd_filter ?env) \<noteq> []"
    by (simp add: demo_env_def)
  have start: "rewrite_start ?env ?w ?r = (0, ?p)"
    by (simp add: rewrite_start_eq) (simp add: demo_env_def export_line_def backslash_escape_def)
  have base: "Base ''a.bin'' \<noteq> ''.gitattributes''"
    by (simp add: Base_def IsPathSeparator_def)
  have vs: "visits ?env = ?visits"
    by (simp add: demo_env_def)
  have rewritten: "rewrite_visits (export_options ?env 0) (visits ?env) ?p =
                   (Inr [BlobObject \<lparr>Contents = ''real bytes'', Size = 10\<rparr>], ?p1)"
    using base
    by (simp add: vs export_options_def BlobFn_def emit_def demo_env_def demo_smudge_def)
  have bare: "IsBare ?env = (False, Some (Errorf ''not a git repository''))"
    by (simp add: demo_env_def)
  have checkout: "Checkout ?env = None"
    by (simp add: demo_env_def)
  note discarded = IsBare_error_discarded [OF opened nonempty start rewritten bare]
  from discarded [THEN conjunct1] discarded [THEN conjunct2, THEN conjunct1]
  show ?thesis by (simp add: checkout vs)
qed

end
